theory Spec2Isabelle
  imports Complex_Main "HOL-Library.Word"
begin

section \<open>Data model of \<^verbatim>\<open>src/common/gpx.c\<close>\<close>

text \<open>
  A \<^verbatim>\<open>gdouble\<close> is an IEEE double. The parser stores doubles, compares them once
  with \<^verbatim>\<open>==\<close> against \<^verbatim>\<open>NAN\<close> and never computes with them, so a double is
  a not-a-number, an infinity or a finite value. The C operator \<^verbatim>\<open>==\<close> is
  \<open>gdouble_eq\<close>: a comparison with a not-a-number operand is false, whatever the other
  operand is.
\<close>

datatype gdouble = NaN | MinusInf | PlusInf | Finite real

definition gdouble_eq :: "gdouble \<Rightarrow> gdouble \<Rightarrow> bool" where
  "gdouble_eq x y = (x \<noteq> NaN \<and> y \<noteq> NaN \<and> x = y)"

text \<open>
  \<^verbatim>\<open>glong\<close> values are only compared (the one subtraction of the source feeds a
  diagnostic line and nothing else), so they are integers with their order.
\<close>

type_synonym glong = int

record GTimeVal =
  tv_sec :: glong
  tv_usec :: glong

record gpx_track_point_t =
  longitude :: gdouble
  latitude :: gdouble
  elevation :: gdouble
  time :: GTimeVal

text \<open>
  A pointer to a track point. The code owns every point through exactly one pointer at
  a time (the parser's \<^verbatim>\<open>current_track_point\<close>, then one cell of the list), so a
  live pointer is modelled by the point it refers to. \<open>Freed\<close> is a pointer whose
  target has been given to \<^verbatim>\<open>g_free\<close> and that was not reset: reading or writing
  through it, or freeing it again, is undefined behaviour and is a \<open>fault\<close> of the
  model.
\<close>

datatype tp_ptr = NULL | Ptr gpx_track_point_t | Freed

datatype fault = NullDeref | UseAfterFree | DoubleFree

record dt_gpx_t =
  track :: "tp_ptr list"
  current_track_point :: tp_ptr
  current_parser_element :: "32 word"
  invalid_track_point :: bool

definition GPX_PARSER_ELEMENT_TRKPT :: "32 word" where
  "GPX_PARSER_ELEMENT_TRKPT = 1"

definition GPX_PARSER_ELEMENT_TIME :: "32 word" where
  "GPX_PARSER_ELEMENT_TIME = 2"

definition GPX_PARSER_ELEMENT_ELE :: "32 word" where
  "GPX_PARSER_ELEMENT_ELE = 4"

text \<open>\<^verbatim>\<open>g_free\<close>: a no-op on \<^verbatim>\<open>NULL\<close>; the result is what the pointer refers to
  afterwards.\<close>

fun g_free :: "tp_ptr \<Rightarrow> fault + tp_ptr" where
  "g_free NULL = Inr NULL"
| "g_free (Ptr p) = Inr Freed"
| "g_free Freed = Inl DoubleFree"

section \<open>The location resolver: \<^verbatim>\<open>dt_gpx_get_location\<close>\<close>

text \<open>
  The function returns a \<^verbatim>\<open>gboolean\<close> and writes \<^verbatim>\<open>*lon\<close> and \<^verbatim>\<open>*lat\<close>.
  The model takes the contents of the two output locations and returns them with the
  statement that returned: the early \<^verbatim>\<open>return FALSE\<close> of line 135, the out-of-range
  return of line 151, the in-range return of line 160, or the \<^verbatim>\<open>return FALSE\<close> after
  the loop (line 166).
\<close>

datatype exit_path = TooFewPoints | OutOfRange | InRange | PostLoop

text \<open>The \<^verbatim>\<open>do ... while\<close> loop of lines 137-163, entered at the list cell \<open>item\<close>
  with the cells \<open>rest\<close> after it.\<close>

fun scan_track ::
  "tp_ptr list \<Rightarrow> GTimeVal \<Rightarrow> gdouble \<Rightarrow> gdouble \<Rightarrow> fault + (exit_path \<times> gdouble \<times> gdouble)"
where
  "scan_track [] timestamp lon lat = Inr (PostLoop, lon, lat)"
| "scan_track (item # rest) timestamp lon lat =
     (case item of
        NULL \<Rightarrow> Inl NullDeref
      | Freed \<Rightarrow> Inl UseAfterFree
      | Ptr tp \<Rightarrow>
          if (rest = [] \<and> tv_sec timestamp \<ge> tv_sec (time tp))
             \<or> tv_sec timestamp \<le> tv_sec (time tp)
          then Inr (OutOfRange, longitude tp, latitude tp)
          else if tv_sec timestamp \<ge> tv_sec (time tp)
          then (case rest of
                  [] \<Rightarrow> Inl NullDeref
                | NULL # _ \<Rightarrow> Inl NullDeref
                | Freed # _ \<Rightarrow> Inl UseAfterFree
                | Ptr np # _ \<Rightarrow>
                    if tv_sec timestamp \<le> tv_sec (time np)
                    then Inr (InRange, longitude tp, latitude tp)
                    else scan_track rest timestamp lon lat)
          else scan_track rest timestamp lon lat)"

definition dt_gpx_get_location_exit ::
  "dt_gpx_t \<Rightarrow> GTimeVal \<Rightarrow> gdouble \<Rightarrow> gdouble \<Rightarrow> fault + (exit_path \<times> gdouble \<times> gdouble)"
where
  "dt_gpx_get_location_exit gpx timestamp lon lat =
     (case track gpx of
        [] \<Rightarrow> Inr (TooFewPoints, lon, lat)
      | [item] \<Rightarrow> Inr (TooFewPoints, lon, lat)
      | _ \<Rightarrow> scan_track (track gpx) timestamp lon lat)"

text \<open>Only the in-range return gives \<^verbatim>\<open>TRUE\<close>.\<close>

definition gboolean_of :: "exit_path \<Rightarrow> bool" where
  "gboolean_of e = (e = InRange)"

definition dt_gpx_get_location ::
  "dt_gpx_t \<Rightarrow> GTimeVal \<Rightarrow> gdouble \<Rightarrow> gdouble \<Rightarrow> fault + (bool \<times> gdouble \<times> gdouble)"
where
  "dt_gpx_get_location gpx timestamp lon lat =
     (case dt_gpx_get_location_exit gpx timestamp lon lat of
        Inl f \<Rightarrow> Inl f
      | Inr (e, lon', lat') \<Rightarrow> Inr (gboolean_of e, lon', lat'))"

section \<open>The GPX XML parser: the three callbacks\<close>

text \<open>
  Two functions of GLib are parameters of the model:
  \<^item> \<open>strtod\<close> is \<^verbatim>\<open>g_ascii_strtod(s, NULL)\<close>;
  \<^item> \<open>from_iso\<close> is \<^verbatim>\<open>g_time_val_from_iso8601(text, &time)\<close>: it takes the text and
    the contents of \<^verbatim>\<open>time\<close>, and returns its \<^verbatim>\<open>gboolean\<close> with the contents of
    \<^verbatim>\<open>time\<close> afterwards.
  The \<^verbatim>\<open>fprintf\<close> diagnostics are not modelled: nothing reads them.
\<close>

text \<open>The attribute arrays \<^verbatim>\<open>attribute_names\<close> and \<^verbatim>\<open>attribute_values\<close> run in
  parallel up to their \<^verbatim>\<open>NULL\<close> terminator: a list of pairs.\<close>

type_synonym attributes = "(string \<times> string) list"

text \<open>A point as lines 194-199 leave it: zeroed by \<^verbatim>\<open>memset\<close>, then both coordinates
  set to \<^verbatim>\<open>NAN\<close>.\<close>

definition new_track_point :: gpx_track_point_t where
  "new_track_point =
     \<lparr>longitude = NaN, latitude = NaN, elevation = Finite 0,
      time = \<lparr>tv_sec = 0, tv_usec = 0\<rparr>\<rparr>"

text \<open>The \<^verbatim>\<open>while (*attribute_name)\<close> loop of lines 202-211.\<close>

fun scan_attributes ::
  "(string \<Rightarrow> gdouble) \<Rightarrow> attributes \<Rightarrow> gpx_track_point_t \<Rightarrow> gpx_track_point_t"
where
  "scan_attributes strtod [] tp = tp"
| "scan_attributes strtod ((attribute_name, attribute_value) # remaining) tp =
     scan_attributes strtod remaining
       (if attribute_name = ''lon'' then tp\<lparr>longitude := strtod attribute_value\<rparr>
        else if attribute_name = ''lat'' then tp\<lparr>latitude := strtod attribute_value\<rparr>
        else tp)"

definition gpx_parser_start_element ::
  "(string \<Rightarrow> gdouble) \<Rightarrow> string \<Rightarrow> attributes \<Rightarrow> dt_gpx_t \<Rightarrow> fault + dt_gpx_t"
where
  "gpx_parser_start_element strtod element_name attrs gpx =
     (if element_name = ''trkpt'' then
        (case (if current_track_point gpx \<noteq> NULL then g_free (current_track_point gpx)
               else Inr (current_track_point gpx)) of
           Inl f \<Rightarrow> Inl f
         | Inr old \<Rightarrow>
             let gpx1 = gpx\<lparr>current_track_point := old, invalid_track_point := False\<rparr>;
                 gpx2 =
                   (if attrs \<noteq> [] then
                      let tp = scan_attributes strtod attrs new_track_point;
                          gpx' = gpx1\<lparr>current_track_point := Ptr tp\<rparr>
                      in if gdouble_eq (longitude tp) NaN \<or> gdouble_eq (latitude tp) NaN
                         then gpx'\<lparr>invalid_track_point := True\<rparr>
                         else gpx'
                    else gpx1)
             in Inr (gpx2\<lparr>current_parser_element := GPX_PARSER_ELEMENT_TRKPT\<rparr>))
      else if element_name = ''time'' then
        (if current_track_point gpx = NULL then Inr gpx
         else Inr (gpx\<lparr>current_parser_element := GPX_PARSER_ELEMENT_TIME\<rparr>))
      else if element_name = ''ele'' then
        (if current_track_point gpx = NULL then Inr gpx
         else Inr (gpx\<lparr>current_parser_element := GPX_PARSER_ELEMENT_ELE\<rparr>))
      else Inr gpx)"

definition gpx_parser_end_element :: "string \<Rightarrow> dt_gpx_t \<Rightarrow> fault + dt_gpx_t" where
  "gpx_parser_end_element element_name gpx =
     (case (if element_name = ''trkpt'' then
              (if \<not> invalid_track_point gpx
               then Inr (gpx\<lparr>track := track gpx @ [current_track_point gpx],
                              current_track_point := NULL\<rparr>)
               else (case g_free (current_track_point gpx) of
                       Inl f \<Rightarrow> Inl f
                     | Inr _ \<Rightarrow> Inr (gpx\<lparr>current_track_point := NULL\<rparr>)))
            else Inr gpx) of
        Inl f \<Rightarrow> Inl f
      | Inr gpx' \<Rightarrow> Inr (gpx'\<lparr>current_parser_element := 0\<rparr>))"

definition gpx_parser_text ::
  "(string \<Rightarrow> gdouble) \<Rightarrow> (string \<Rightarrow> GTimeVal \<Rightarrow> bool \<times> GTimeVal) \<Rightarrow> string \<Rightarrow> dt_gpx_t
     \<Rightarrow> fault + dt_gpx_t"
where
  "gpx_parser_text strtod from_iso text gpx =
     (if current_track_point gpx = NULL then Inr gpx
      else if current_parser_element gpx = GPX_PARSER_ELEMENT_TIME then
        (case current_track_point gpx of
           NULL \<Rightarrow> Inl NullDeref
         | Freed \<Rightarrow> Inl UseAfterFree
         | Ptr tp \<Rightarrow>
             let (ok, tv) = from_iso text (time tp);
                 gpx' = gpx\<lparr>current_track_point := Ptr (tp\<lparr>time := tv\<rparr>)\<rparr>
             in if \<not> ok then Inr (gpx'\<lparr>invalid_track_point := True\<rparr>) else Inr gpx')
      else if current_parser_element gpx = GPX_PARSER_ELEMENT_ELE then
        (case current_track_point gpx of
           NULL \<Rightarrow> Inl NullDeref
         | Freed \<Rightarrow> Inl UseAfterFree
         | Ptr tp \<Rightarrow> Inr (gpx\<lparr>current_track_point := Ptr (tp\<lparr>elevation := strtod text\<rparr>)\<rparr>))
      else Inr gpx)"

section \<open>The event source and \<^verbatim>\<open>dt_gpx_new\<close>\<close>

text \<open>
  \<^verbatim>\<open>g_markup_parse_context_parse\<close> reads the buffer and calls the callbacks of the
  table \<^verbatim>\<open>_gpx_parser\<close> in document order: one event per start tag, end tag and run of
  text.
\<close>

datatype xml_event =
  StartElement string attributes
| EndElement string
| TextEvent string

fun gpx_parser_event ::
  "(string \<Rightarrow> gdouble) \<Rightarrow> (string \<Rightarrow> GTimeVal \<Rightarrow> bool \<times> GTimeVal) \<Rightarrow> xml_event \<Rightarrow> dt_gpx_t
     \<Rightarrow> fault + dt_gpx_t"
where
  "gpx_parser_event strtod from_iso (StartElement element_name attrs) gpx =
     gpx_parser_start_element strtod element_name attrs gpx"
| "gpx_parser_event strtod from_iso (EndElement element_name) gpx =
     gpx_parser_end_element element_name gpx"
| "gpx_parser_event strtod from_iso (TextEvent text) gpx =
     gpx_parser_text strtod from_iso text gpx"

fun run_events ::
  "(string \<Rightarrow> gdouble) \<Rightarrow> (string \<Rightarrow> GTimeVal \<Rightarrow> bool \<times> GTimeVal) \<Rightarrow> xml_event list \<Rightarrow> dt_gpx_t
     \<Rightarrow> fault + dt_gpx_t"
where
  "run_events strtod from_iso [] gpx = Inr gpx"
| "run_events strtod from_iso (ev # evs) gpx =
     (case gpx_parser_event strtod from_iso ev gpx of
        Inl f \<Rightarrow> Inl f
      | Inr gpx' \<Rightarrow> run_events strtod from_iso evs gpx')"

text \<open>The context after \<^verbatim>\<open>memset(gpx, 0, sizeof(dt_gpx_t))\<close>.\<close>

definition gpx_zero :: dt_gpx_t where
  "gpx_zero =
     \<lparr>track = [], current_track_point = NULL, current_parser_element = 0,
      invalid_track_point = False\<rparr>"

text \<open>
  \<^verbatim>\<open>dt_gpx_new\<close>. The file mapping and the tokenizer are parameters:
  \<^item> \<open>mapped_file filename\<close> is the mapped contents, or \<open>None\<close> when
    \<^verbatim>\<open>g_mapped_file_new\<close> sets its error;
  \<^item> \<open>markup_parse buffer\<close> is the events \<^verbatim>\<open>g_markup_parse_context_parse\<close> delivers
    for the buffer, and whether it sets its error. No callback sets the error.
  The length of the mapping is stored in a \<^verbatim>\<open>gint\<close>: the low 32 bits, read as signed.
  The result is \<open>None\<close> for the \<^verbatim>\<open>NULL\<close> of the error path.
\<close>

definition dt_gpx_new ::
  "(string \<Rightarrow> string option) \<Rightarrow> (string \<Rightarrow> xml_event list \<times> bool) \<Rightarrow>
   (string \<Rightarrow> gdouble) \<Rightarrow> (string \<Rightarrow> GTimeVal \<Rightarrow> bool \<times> GTimeVal) \<Rightarrow> string
     \<Rightarrow> fault + dt_gpx_t option"
where
  "dt_gpx_new mapped_file markup_parse strtod from_iso filename =
     (case mapped_file filename of
        None \<Rightarrow> Inr None
      | Some gpxmf_content \<Rightarrow>
          let gpxmf_size = sint (word_of_nat (length gpxmf_content) :: 32 word)
          in if gpxmf_content = [] \<or> gpxmf_size < 10 then Inr None
             else
               let (events, err) = markup_parse (take (nat gpxmf_size) gpxmf_content)
               in (case run_events strtod from_iso events gpx_zero of
                     Inl f \<Rightarrow> Inl f
                   | Inr gpx \<Rightarrow> if err then Inr None else Inr (Some gpx)))"

section \<open>Vocabulary of the statements\<close>

text \<open>Events that open or close an element of a given name.\<close>

fun starts :: "string \<Rightarrow> xml_event \<Rightarrow> bool" where
  "starts n (StartElement m attrs) = (m = n)"
| "starts n ev = False"

fun ends :: "string \<Rightarrow> xml_event \<Rightarrow> bool" where
  "ends n (EndElement m) = (m = n)"
| "ends n ev = False"

text \<open>The events between a \<^verbatim>\<open>trkpt\<close> start tag and its end tag, when no other
  \<^verbatim>\<open>trkpt\<close> is nested inside.\<close>

definition trkpt_free :: "xml_event list \<Rightarrow> bool" where
  "trkpt_free evs = list_all (\<lambda>ev. \<not> starts ''trkpt'' ev \<and> \<not> ends ''trkpt'' ev) evs"

text \<open>Such events with no \<^verbatim>\<open>time\<close> child among them, and with no \<^verbatim>\<open>time\<close> and no
  \<^verbatim>\<open>ele\<close> child.\<close>

definition no_time_child :: "xml_event list \<Rightarrow> bool" where
  "no_time_child evs = (trkpt_free evs \<and> list_all (\<lambda>ev. \<not> starts ''time'' ev) evs)"

definition no_time_ele_child :: "xml_event list \<Rightarrow> bool" where
  "no_time_ele_child evs = (no_time_child evs \<and> list_all (\<lambda>ev. \<not> starts ''ele'' ev) evs)"

text \<open>The timestamp of a store entry is the default of a zeroed point or the output of
  a successful call of \<^verbatim>\<open>g_time_val_from_iso8601\<close>. A \<^verbatim>\<open>NULL\<close> entry holds no
  point. A dangling entry is a point that was freed, whatever its timestamp was: it does
  not meet the condition.\<close>

definition timestamp_parsed_or_default ::
  "(string \<Rightarrow> GTimeVal \<Rightarrow> bool \<times> GTimeVal) \<Rightarrow> tp_ptr \<Rightarrow> bool"
where
  "timestamp_parsed_or_default from_iso ptr =
     (case ptr of
        Ptr tp \<Rightarrow> time tp = \<lparr>tv_sec = 0, tv_usec = 0\<rparr>
                  \<or> (\<exists>text tv0. from_iso text tv0 = (True, time tp))
      | NULL \<Rightarrow> True
      | Freed \<Rightarrow> False)"

text \<open>The same for the context during the parse: the entries of the track, and the point
  in progress unless it is already marked invalid.\<close>

definition timestamps_sound ::
  "(string \<Rightarrow> GTimeVal \<Rightarrow> bool \<times> GTimeVal) \<Rightarrow> dt_gpx_t \<Rightarrow> bool"
where
  "timestamps_sound from_iso gpx =
     (list_all (timestamp_parsed_or_default from_iso) (track gpx)
      \<and> (invalid_track_point gpx
           \<or> timestamp_parsed_or_default from_iso (current_track_point gpx)))"

text \<open>Two pointers that differ at most in the sub-second part of the timestamp.\<close>

fun same_but_usec :: "tp_ptr \<Rightarrow> tp_ptr \<Rightarrow> bool" where
  "same_but_usec (Ptr p) (Ptr q) =
     (longitude p = longitude q \<and> latitude p = latitude q \<and> elevation p = elevation q
      \<and> tv_sec (time p) = tv_sec (time q))"
| "same_but_usec NULL NULL = True"
| "same_but_usec Freed Freed = True"
| "same_but_usec x y = False"

fun clear_usec :: "tp_ptr \<Rightarrow> tp_ptr" where
  "clear_usec (Ptr p) = Ptr (p\<lparr>time := (time p)\<lparr>tv_usec := 0\<rparr>\<rparr>)"
| "clear_usec x = x"

subsection \<open>Stand-ins for the two GLib functions, to run the model on documents\<close>

text \<open>A table of the few texts the sample documents use; any other number text reads
  as 0 and any other time text fails, leaving the output as it was.\<close>

definition strtod_sample :: "string \<Rightarrow> gdouble" where
  "strtod_sample s =
     (if s = ''11.5'' then Finite (23 / 2)
      else if s = ''48.25'' then Finite (193 / 4)
      else Finite 0)"

definition from_iso_sample :: "string \<Rightarrow> GTimeVal \<Rightarrow> bool \<times> GTimeVal" where
  "from_iso_sample s tv =
     (if s = ''1970-01-01T00:01:40Z'' then (True, \<lparr>tv_sec = 100, tv_usec = 0\<rparr>)
      else (False, tv))"

section \<open>The resolver\<close>

lemma exit_by_length:
  "dt_gpx_get_location_exit gpx ts lon lat =
     (if length (track gpx) < 2 then Inr (TooFewPoints, lon, lat)
      else scan_track (track gpx) ts lon lat)"
  by (simp add: dt_gpx_get_location_exit_def split: list.splits)

lemma scan_track_points:
  "ps \<noteq> [] \<Longrightarrow>
     \<exists>e lon' lat'. scan_track (map Ptr ps) ts lon lat = Inr (e, lon', lat')
        \<and> (e = OutOfRange \<or> e = InRange)"
proof (induction ps)
  case Nil
  then show ?case by simp
next
  case (Cons p ps)
  show ?case
  proof (cases ps)
    case Nil
    then show ?thesis by auto
  next
    case (Cons q qs)
    with Cons.IH show ?thesis by auto
  qed
qed

text \<open>
  Claim C4. On a store of exactly two points, with timestamps 100 and 200 at
  coordinates A and B, a query at 150 returns A's coordinates with \<^verbatim>\<open>TRUE\<close>, a query
  at 100 and a query at 50 return A's coordinates with \<^verbatim>\<open>FALSE\<close>, and a query at 250
  returns B's coordinates with \<^verbatim>\<open>FALSE\<close>. The elevations, the sub-second parts, the
  other fields of the handle and the previous contents of the outputs are arbitrary.
\<close>

theorem two_point_store_locate:
  fixes A B :: gpx_track_point_t and gpx :: dt_gpx_t and ua ub :: glong
  defines "store \<equiv> gpx\<lparr>track := [Ptr (A\<lparr>time := \<lparr>tv_sec = 100, tv_usec = ua\<rparr>\<rparr>),
                                    Ptr (B\<lparr>time := \<lparr>tv_sec = 200, tv_usec = ub\<rparr>\<rparr>)]\<rparr>"
  shows "dt_gpx_get_location store \<lparr>tv_sec = 150, tv_usec = u\<rparr> lon lat
           = Inr (True, longitude A, latitude A)
       \<and> dt_gpx_get_location store \<lparr>tv_sec = 100, tv_usec = u\<rparr> lon lat
           = Inr (False, longitude A, latitude A)
       \<and> dt_gpx_get_location store \<lparr>tv_sec = 50, tv_usec = u\<rparr> lon lat
           = Inr (False, longitude A, latitude A)
       \<and> dt_gpx_get_location store \<lparr>tv_sec = 250, tv_usec = u\<rparr> lon lat
           = Inr (False, longitude B, latitude B)"
  by (simp add: store_def dt_gpx_get_location_def dt_gpx_get_location_exit_def gboolean_of_def)

text \<open>
  Claim C5. On a store of at least two points the scan leaves \<^verbatim>\<open>dt_gpx_get_location\<close>
  through the out-of-range return or the in-range return, whatever the order of the
  timestamps and whatever the query: the \<^verbatim>\<open>return FALSE\<close> after the loop is not
  reached. (The last cell always takes the out-of-range return, since the query is at or
  after its timestamp, or at or before it.)
\<close>

theorem scan_returns_inside_loop:
  assumes "2 \<le> length ps"
  shows "\<exists>e lon' lat'.
           dt_gpx_get_location_exit (gpx\<lparr>track := map Ptr ps\<rparr>) ts lon lat = Inr (e, lon', lat')
           \<and> (e = OutOfRange \<or> e = InRange)"
proof -
  from assms have "ps \<noteq> []" by auto
  from scan_track_points [OF this] assms show ?thesis
    by (simp add: exit_by_length)
qed

theorem scan_returns_inside_loop_witness:
  "2 \<le> length [\<lparr>longitude = Finite 1, latitude = Finite 2, elevation = Finite 0,
                  time = \<lparr>tv_sec = 300, tv_usec = 0\<rparr>\<rparr>,
                 \<lparr>longitude = Finite 3, latitude = Finite 4, elevation = Finite 0,
                  time = \<lparr>tv_sec = 100, tv_usec = 0\<rparr>\<rparr>]
   \<and> (\<exists>e lon' lat'.
        dt_gpx_get_location_exit
          (gpx_zero\<lparr>track := map Ptr
             [\<lparr>longitude = Finite 1, latitude = Finite 2, elevation = Finite 0,
               time = \<lparr>tv_sec = 300, tv_usec = 0\<rparr>\<rparr>,
              \<lparr>longitude = Finite 3, latitude = Finite 4, elevation = Finite 0,
               time = \<lparr>tv_sec = 100, tv_usec = 0\<rparr>\<rparr>]\<rparr>)
          \<lparr>tv_sec = 500, tv_usec = 0\<rparr> NaN NaN = Inr (e, lon', lat')
        \<and> (e = OutOfRange \<or> e = InRange))"
proof -
  have h: "2 \<le> length [\<lparr>longitude = Finite 1, latitude = Finite 2, elevation = Finite 0,
                  time = \<lparr>tv_sec = 300, tv_usec = 0\<rparr>\<rparr>,
                 \<lparr>longitude = Finite 3, latitude = Finite 4, elevation = Finite 0,
                  time = \<lparr>tv_sec = 100, tv_usec = 0\<rparr>\<rparr>]"
    by simp
  from h scan_returns_inside_loop [OF h] show ?thesis by blast
qed

text \<open>
  Claim C6. On a store of fewer than two entries \<^verbatim>\<open>dt_gpx_get_location\<close> returns
  \<^verbatim>\<open>FALSE\<close> from the check of line 134, for every query, and the two output locations
  keep the contents they had.
\<close>

theorem too_few_points:
  assumes "length (track gpx) < 2"
  shows "dt_gpx_get_location_exit gpx ts lon lat = Inr (TooFewPoints, lon, lat)
       \<and> dt_gpx_get_location gpx ts lon lat = Inr (False, lon, lat)"
  using assms by (simp add: dt_gpx_get_location_def exit_by_length gboolean_of_def)

theorem too_few_points_witness:
  "length (track (gpx_zero\<lparr>track := [NULL]\<rparr>)) < 2
   \<and> dt_gpx_get_location_exit (gpx_zero\<lparr>track := [NULL]\<rparr>) \<lparr>tv_sec = 150, tv_usec = 0\<rparr>
        (Finite 7) (Finite 9) = Inr (TooFewPoints, Finite 7, Finite 9)
   \<and> dt_gpx_get_location (gpx_zero\<lparr>track := [NULL]\<rparr>) \<lparr>tv_sec = 150, tv_usec = 0\<rparr>
        (Finite 7) (Finite 9) = Inr (False, Finite 7, Finite 9)"
proof -
  have h: "length (track (gpx_zero\<lparr>track := [NULL]\<rparr>)) < 2" by simp
  from h too_few_points [OF h] show ?thesis by blast
qed

lemma scan_track_clear_usec:
  "scan_track (map clear_usec tr) (ts\<lparr>tv_usec := 0\<rparr>) lon lat = scan_track tr ts lon lat"
proof (induction tr)
  case Nil
  then show ?case by simp
next
  case (Cons x xs)
  show ?case
  proof (cases x)
    case (Ptr p)
    show ?thesis
    proof (cases xs)
      case Nil
      with Ptr show ?thesis by simp
    next
      case (Cons y ys)
      with Ptr Cons.IH show ?thesis by (cases y) auto
    qed
  qed simp_all
qed

lemma same_but_usec_clear:
  "list_all2 same_but_usec xs ys \<Longrightarrow> map clear_usec xs = map clear_usec ys"
proof (induction rule: list_all2_induct)
  case Nil
  then show ?case by simp
next
  case (Cons x xs y ys)
  from Cons.hyps(1) have "clear_usec x = clear_usec y"
    by (cases x; cases y) (auto intro!: gpx_track_point_t.equality GTimeVal.equality)
  with Cons.IH show ?case by simp
qed

text \<open>
  Claim C10. The resolver reads only \<^verbatim>\<open>tv_sec\<close>: two queries with the same whole
  seconds, on two stores whose entries differ at most in \<^verbatim>\<open>tv_usec\<close>, give the same
  return value and the same longitude and latitude (and the same fault, where an entry is
  not a live pointer).
\<close>

theorem locate_ignores_subseconds:
  assumes "tv_sec ts1 = tv_sec ts2"
      and "list_all2 same_but_usec (track g1) (track g2)"
  shows "dt_gpx_get_location g1 ts1 lon lat = dt_gpx_get_location g2 ts2 lon lat"
proof -
  from assms(1) have ts: "ts1\<lparr>tv_usec := 0\<rparr> = ts2\<lparr>tv_usec := 0\<rparr>" by simp
  from assms(2) have len: "length (track g1) = length (track g2)"
    by (rule list_all2_lengthD)
  have "scan_track (track g1) ts1 lon lat
          = scan_track (map clear_usec (track g1)) (ts1\<lparr>tv_usec := 0\<rparr>) lon lat"
    by (simp add: scan_track_clear_usec)
  also have "\<dots> = scan_track (map clear_usec (track g2)) (ts2\<lparr>tv_usec := 0\<rparr>) lon lat"
    using same_but_usec_clear [OF assms(2)] ts by simp
  also have "\<dots> = scan_track (track g2) ts2 lon lat"
    by (simp add: scan_track_clear_usec)
  finally show ?thesis
    using len by (simp add: dt_gpx_get_location_def exit_by_length)
qed

theorem locate_ignores_subseconds_witness:
  "tv_sec \<lparr>tv_sec = 150, tv_usec = 1\<rparr> = tv_sec \<lparr>tv_sec = 150, tv_usec = 999999\<rparr>
   \<and> list_all2 same_but_usec
        (track (gpx_zero\<lparr>track :=
           [Ptr \<lparr>longitude = Finite 1, latitude = Finite 2, elevation = Finite 0,
                 time = \<lparr>tv_sec = 150, tv_usec = 500\<rparr>\<rparr>,
            Ptr \<lparr>longitude = Finite 3, latitude = Finite 4, elevation = Finite 0,
                 time = \<lparr>tv_sec = 200, tv_usec = 0\<rparr>\<rparr>]\<rparr>))
        (track (gpx_zero\<lparr>track :=
           [Ptr \<lparr>longitude = Finite 1, latitude = Finite 2, elevation = Finite 0,
                 time = \<lparr>tv_sec = 150, tv_usec = 0\<rparr>\<rparr>,
            Ptr \<lparr>longitude = Finite 3, latitude = Finite 4, elevation = Finite 0,
                 time = \<lparr>tv_sec = 200, tv_usec = 7\<rparr>\<rparr>]\<rparr>))
   \<and> dt_gpx_get_location
        (gpx_zero\<lparr>track :=
           [Ptr \<lparr>longitude = Finite 1, latitude = Finite 2, elevation = Finite 0,
                 time = \<lparr>tv_sec = 150, tv_usec = 500\<rparr>\<rparr>,
            Ptr \<lparr>longitude = Finite 3, latitude = Finite 4, elevation = Finite 0,
                 time = \<lparr>tv_sec = 200, tv_usec = 0\<rparr>\<rparr>]\<rparr>)
        \<lparr>tv_sec = 150, tv_usec = 1\<rparr> NaN NaN
     = dt_gpx_get_location
        (gpx_zero\<lparr>track :=
           [Ptr \<lparr>longitude = Finite 1, latitude = Finite 2, elevation = Finite 0,
                 time = \<lparr>tv_sec = 150, tv_usec = 0\<rparr>\<rparr>,
            Ptr \<lparr>longitude = Finite 3, latitude = Finite 4, elevation = Finite 0,
                 time = \<lparr>tv_sec = 200, tv_usec = 7\<rparr>\<rparr>]\<rparr>)
        \<lparr>tv_sec = 150, tv_usec = 999999\<rparr> NaN NaN"
proof -
  have h1: "tv_sec \<lparr>tv_sec = 150, tv_usec = 1\<rparr> = tv_sec \<lparr>tv_sec = 150, tv_usec = 999999\<rparr>"
    by simp
  have h2: "list_all2 same_but_usec
        (track (gpx_zero\<lparr>track :=
           [Ptr \<lparr>longitude = Finite 1, latitude = Finite 2, elevation = Finite 0,
                 time = \<lparr>tv_sec = 150, tv_usec = 500\<rparr>\<rparr>,
            Ptr \<lparr>longitude = Finite 3, latitude = Finite 4, elevation = Finite 0,
                 time = \<lparr>tv_sec = 200, tv_usec = 0\<rparr>\<rparr>]\<rparr>))
        (track (gpx_zero\<lparr>track :=
           [Ptr \<lparr>longitude = Finite 1, latitude = Finite 2, elevation = Finite 0,
                 time = \<lparr>tv_sec = 150, tv_usec = 0\<rparr>\<rparr>,
            Ptr \<lparr>longitude = Finite 3, latitude = Finite 4, elevation = Finite 0,
                 time = \<lparr>tv_sec = 200, tv_usec = 7\<rparr>\<rparr>]\<rparr>))"
    by simp
  from h1 h2 locate_ignores_subseconds [OF h1 h2] show ?thesis by blast
qed

section \<open>The callbacks on the events of one \<^verbatim>\<open>trkpt\<close> element\<close>

lemmas callback_defs =
  gpx_parser_start_element_def gpx_parser_end_element_def gpx_parser_text_def
  GPX_PARSER_ELEMENT_TRKPT_def GPX_PARSER_ELEMENT_TIME_def GPX_PARSER_ELEMENT_ELE_def

lemma run_events_append:
  "run_events sd fi (xs @ ys) g =
     (case run_events sd fi xs g of Inl f \<Rightarrow> Inl f | Inr g' \<Rightarrow> run_events sd fi ys g')"
  by (induction xs arbitrary: g) (auto split: sum.splits)

lemma scan_attributes_frame:
  "elevation (scan_attributes sd attrs tp) = elevation tp
   \<and> time (scan_attributes sd attrs tp) = time tp"
  by (induction sd attrs tp rule: scan_attributes.induct) auto

lemma scan_attributes_lon:
  "distinct (map fst attrs) \<Longrightarrow>
     longitude (scan_attributes sd attrs tp)
       = (case map_of attrs ''lon'' of None \<Rightarrow> longitude tp | Some v \<Rightarrow> sd v)"
proof (induction sd attrs tp rule: scan_attributes.induct)
  case (1 sd tp)
  then show ?case by simp
next
  case (2 sd n v remaining tp)
  from "2.prems" have d: "distinct (map fst remaining)" and n: "n \<notin> fst ` set remaining"
    by auto
  from n have none: "map_of remaining n = None"
    by (simp add: map_of_eq_None_iff)
  show ?case using "2.IH" [OF d] none by (auto split: option.splits)
qed

lemma scan_attributes_lat:
  "distinct (map fst attrs) \<Longrightarrow>
     latitude (scan_attributes sd attrs tp)
       = (case map_of attrs ''lat'' of None \<Rightarrow> latitude tp | Some v \<Rightarrow> sd v)"
proof (induction sd attrs tp rule: scan_attributes.induct)
  case (1 sd tp)
  then show ?case by simp
next
  case (2 sd n v remaining tp)
  from "2.prems" have d: "distinct (map fst remaining)" and n: "n \<notin> fst ` set remaining"
    by auto
  from n have none: "map_of remaining n = None"
    by (simp add: map_of_eq_None_iff)
  show ?case using "2.IH" [OF d] none by (auto split: option.splits)
qed

lemma start_trkpt_with_attributes:
  assumes "current_track_point g \<noteq> Freed" and "attrs \<noteq> []"
  shows "\<exists>g'. gpx_parser_start_element sd ''trkpt'' attrs g = Inr g'
           \<and> track g' = track g
           \<and> current_track_point g' = Ptr (scan_attributes sd attrs new_track_point)
           \<and> \<not> invalid_track_point g'
           \<and> current_parser_element g' = GPX_PARSER_ELEMENT_TRKPT"
  using assms
  by (cases "current_track_point g") (simp_all add: callback_defs gdouble_eq_def Let_def)

lemma plain_event:
  assumes "\<not> starts ''trkpt'' ev" "\<not> ends ''trkpt'' ev"
      and "\<not> starts ''time'' ev" "\<not> starts ''ele'' ev"
      and "current_parser_element g \<noteq> GPX_PARSER_ELEMENT_TIME"
      and "current_parser_element g \<noteq> GPX_PARSER_ELEMENT_ELE"
  shows "\<exists>g'. gpx_parser_event sd fi ev g = Inr g'
           \<and> track g' = track g
           \<and> current_track_point g' = current_track_point g
           \<and> invalid_track_point g' = invalid_track_point g
           \<and> current_parser_element g' \<noteq> GPX_PARSER_ELEMENT_TIME
           \<and> current_parser_element g' \<noteq> GPX_PARSER_ELEMENT_ELE"
  using assms by (cases ev) (auto simp: callback_defs)

lemma plain_events:
  assumes "no_time_ele_child evs"
      and "current_parser_element g \<noteq> GPX_PARSER_ELEMENT_TIME"
      and "current_parser_element g \<noteq> GPX_PARSER_ELEMENT_ELE"
  shows "\<exists>g'. run_events sd fi evs g = Inr g'
           \<and> track g' = track g
           \<and> current_track_point g' = current_track_point g
           \<and> invalid_track_point g' = invalid_track_point g
           \<and> current_parser_element g' \<noteq> GPX_PARSER_ELEMENT_TIME
           \<and> current_parser_element g' \<noteq> GPX_PARSER_ELEMENT_ELE"
  using assms
proof (induction evs arbitrary: g)
  case Nil
  then show ?case by simp
next
  case (Cons ev evs)
  from Cons.prems(1) have ev: "\<not> starts ''trkpt'' ev" "\<not> ends ''trkpt'' ev"
      "\<not> starts ''time'' ev" "\<not> starts ''ele'' ev"
    and evs: "no_time_ele_child evs"
    by (simp_all add: no_time_ele_child_def no_time_child_def trkpt_free_def)
  from plain_event [OF ev Cons.prems(2,3)] obtain g1 where
    g1: "gpx_parser_event sd fi ev g = Inr g1" "track g1 = track g"
      "current_track_point g1 = current_track_point g"
      "invalid_track_point g1 = invalid_track_point g"
      "current_parser_element g1 \<noteq> GPX_PARSER_ELEMENT_TIME"
      "current_parser_element g1 \<noteq> GPX_PARSER_ELEMENT_ELE"
    by blast
  from Cons.IH [OF evs g1(5,6)] g1 show ?case by auto
qed

lemma timeless_event:
  assumes "\<not> starts ''trkpt'' ev" "\<not> ends ''trkpt'' ev" "\<not> starts ''time'' ev"
      and "current_track_point g = Ptr p"
      and "current_parser_element g \<noteq> GPX_PARSER_ELEMENT_TIME"
  shows "\<exists>g' p'. gpx_parser_event sd fi ev g = Inr g'
           \<and> track g' = track g
           \<and> invalid_track_point g' = invalid_track_point g
           \<and> current_track_point g' = Ptr p'
           \<and> longitude p' = longitude p \<and> latitude p' = latitude p \<and> time p' = time p
           \<and> current_parser_element g' \<noteq> GPX_PARSER_ELEMENT_TIME"
  using assms by (cases ev) (auto simp: callback_defs)

lemma timeless_events:
  assumes "no_time_child evs"
      and "current_track_point g = Ptr p"
      and "current_parser_element g \<noteq> GPX_PARSER_ELEMENT_TIME"
  shows "\<exists>g' p'. run_events sd fi evs g = Inr g'
           \<and> track g' = track g
           \<and> invalid_track_point g' = invalid_track_point g
           \<and> current_track_point g' = Ptr p'
           \<and> longitude p' = longitude p \<and> latitude p' = latitude p \<and> time p' = time p
           \<and> current_parser_element g' \<noteq> GPX_PARSER_ELEMENT_TIME"
  using assms
proof (induction evs arbitrary: g p)
  case Nil
  then show ?case by simp
next
  case (Cons ev evs)
  from Cons.prems(1) have ev: "\<not> starts ''trkpt'' ev" "\<not> ends ''trkpt'' ev"
      "\<not> starts ''time'' ev"
    and evs: "no_time_child evs"
    by (simp_all add: no_time_child_def trkpt_free_def)
  from timeless_event [OF ev Cons.prems(2,3)] obtain g1 p1 where
    g1: "gpx_parser_event sd fi ev g = Inr g1" "track g1 = track g"
      "invalid_track_point g1 = invalid_track_point g"
      "current_track_point g1 = Ptr p1"
      "longitude p1 = longitude p" "latitude p1 = latitude p" "time p1 = time p"
      "current_parser_element g1 \<noteq> GPX_PARSER_ELEMENT_TIME"
    by blast
  from Cons.IH [OF evs g1(4,8)] g1 show ?case by auto
qed



text \<open>
  Claim C9. A \<^verbatim>\<open>trkpt\<close> element with \<^verbatim>\<open>lon\<close> and \<^verbatim>\<open>lat\<close> attributes (attribute
  names distinct, as in well-formed XML), with one \<^verbatim>\<open>time\<close> child whose text parses and
  no \<^verbatim>\<open>trkpt\<close> nested inside, appends exactly one point to the store: its longitude
  and latitude are the values of the two attributes as \<^verbatim>\<open>g_ascii_strtod\<close> reads them
  and its timestamp is the parsed one; its elevation is 0 when the element has no
  \<^verbatim>\<open>ele\<close> child. The other children and the text before and after the \<^verbatim>\<open>time\<close>
  child (\<open>pre\<close>, \<open>post\<close>), \<^verbatim>\<open>ele\<close> children among them, change neither the
  coordinates nor the timestamp. The element may start in any context whose current
  pointer is not dangling.
\<close>

theorem valid_trkpt_appended:
  assumes cur: "current_track_point gpx \<noteq> Freed"
      and attrs: "distinct (map fst attrs)" "map_of attrs ''lon'' = Some vlon"
                 "map_of attrs ''lat'' = Some vlat"
      and pre: "no_time_child pre" and post: "no_time_child post"
      and parsed: "from_iso time_text \<lparr>tv_sec = 0, tv_usec = 0\<rparr> = (True, tv)"
  shows "\<exists>gpx' tp. run_events strtod from_iso
                   (StartElement ''trkpt'' attrs # pre
                      @ [StartElement ''time'' tattrs, TextEvent time_text, EndElement ''time'']
                      @ post @ [EndElement ''trkpt'']) gpx = Inr gpx'
           \<and> track gpx' = track gpx @ [Ptr tp]
           \<and> longitude tp = strtod vlon \<and> latitude tp = strtod vlat \<and> time tp = tv
           \<and> (list_all (\<lambda>ev. \<not> starts ''ele'' ev) (pre @ post) \<longrightarrow> elevation tp = Finite 0)
           \<and> current_track_point gpx' = NULL"
proof -
  let ?p0 = "scan_attributes strtod attrs new_track_point"
  from attrs(2) have ne: "attrs \<noteq> []" by auto
  have p0: "?p0 = \<lparr>longitude = strtod vlon, latitude = strtod vlat, elevation = Finite 0,
                    time = \<lparr>tv_sec = 0, tv_usec = 0\<rparr>\<rparr>"
    using scan_attributes_lon [OF attrs(1), of strtod new_track_point]
      scan_attributes_lat [OF attrs(1), of strtod new_track_point]
      scan_attributes_frame [of strtod attrs new_track_point] attrs(2,3)
    by (intro gpx_track_point_t.equality) (simp_all add: new_track_point_def)
  from start_trkpt_with_attributes [OF cur ne] obtain g1 where
    g1: "gpx_parser_start_element strtod ''trkpt'' attrs gpx = Inr g1" "track g1 = track gpx"
      "current_track_point g1 = Ptr ?p0" "\<not> invalid_track_point g1"
      "current_parser_element g1 = GPX_PARSER_ELEMENT_TRKPT"
    by blast
  from g1(5) have e1: "current_parser_element g1 \<noteq> GPX_PARSER_ELEMENT_TIME"
      "current_parser_element g1 \<noteq> GPX_PARSER_ELEMENT_ELE"
    by (simp_all add: callback_defs)
  from timeless_events [OF pre g1(3) e1(1), where sd = strtod and fi = from_iso]
  obtain g2 p2 where
    g2: "run_events strtod from_iso pre g1 = Inr g2" "track g2 = track g1"
      "invalid_track_point g2 = invalid_track_point g1" "current_track_point g2 = Ptr p2"
      "longitude p2 = longitude ?p0" "latitude p2 = latitude ?p0" "time p2 = time ?p0"
    by blast
  define mid where
    "mid = [StartElement ''time'' tattrs, TextEvent time_text, EndElement ''time'']"
  let ?g3 = "g2\<lparr>current_track_point := Ptr (p2\<lparr>time := tv\<rparr>), current_parser_element := 0\<rparr>"
  have g3: "run_events strtod from_iso mid g2 = Inr ?g3"
    using g2(4,7) parsed by (simp add: mid_def callback_defs p0)
  have c3: "current_track_point ?g3 = Ptr (p2\<lparr>time := tv\<rparr>)"
    and e3: "current_parser_element ?g3 \<noteq> GPX_PARSER_ELEMENT_TIME"
      "current_parser_element ?g3 \<noteq> GPX_PARSER_ELEMENT_ELE"
    by (simp_all add: callback_defs)
  from timeless_events [OF post c3 e3(1), where sd = strtod and fi = from_iso]
  obtain g4 p4 where
    g4: "run_events strtod from_iso post ?g3 = Inr g4" "track g4 = track ?g3"
      "invalid_track_point g4 = invalid_track_point ?g3" "current_track_point g4 = Ptr p4"
      "longitude p4 = longitude (p2\<lparr>time := tv\<rparr>)" "latitude p4 = latitude (p2\<lparr>time := tv\<rparr>)"
      "time p4 = time (p2\<lparr>time := tv\<rparr>)"
    by blast
  let ?g5 = "g4\<lparr>track := track g4 @ [current_track_point g4],
                current_track_point := NULL, current_parser_element := 0\<rparr>"
  have g5: "gpx_parser_end_element ''trkpt'' g4 = Inr ?g5"
    using g4(3) g2(3) g1(4) by (simp add: gpx_parser_end_element_def)
  have "run_events strtod from_iso
          (StartElement ''trkpt'' attrs # pre @ mid @ post @ [EndElement ''trkpt'']) gpx
          = Inr ?g5"
    using g1(1) g2(1) g3 g4(1) g5 by (simp add: run_events_append)
  then have whole: "run_events strtod from_iso
          (StartElement ''trkpt'' attrs # pre
             @ [StartElement ''time'' tattrs, TextEvent time_text, EndElement ''time'']
             @ post @ [EndElement ''trkpt'']) gpx = Inr ?g5"
    unfolding mid_def .
  have store: "track ?g5 = track gpx @ [Ptr p4]"
    using g4(2,4) g2(2) g1(2) by simp
  have coords: "longitude p4 = strtod vlon" "latitude p4 = strtod vlat" "time p4 = tv"
    using g4(5,6,7) g2(5,6) by (simp_all add: p0)
  have ele: "elevation p4 = Finite 0"
    if none: "list_all (\<lambda>ev. \<not> starts ''ele'' ev) (pre @ post)"
  proof -
    from none pre post have pre': "no_time_ele_child pre" and post': "no_time_ele_child post"
      by (simp_all add: no_time_ele_child_def)
    from plain_events [OF pre' e1, where sd = strtod and fi = from_iso] g2(1,4) g1(3)
    have "p2 = ?p0" by auto
    moreover
    from plain_events [OF post' e3, where sd = strtod and fi = from_iso] g4(1,4)
    have "p4 = p2\<lparr>time := tv\<rparr>" by auto
    ultimately show ?thesis by (simp add: p0)
  qed
  have "current_track_point ?g5 = NULL" by simp
  with whole store coords ele show ?thesis by blast
qed

theorem valid_trkpt_appended_witness:
  "current_track_point gpx_zero \<noteq> Freed
   \<and> distinct (map fst [(''lat'', ''48.25''), (''lon'', ''11.5'')])
   \<and> map_of [(''lat'', ''48.25''), (''lon'', ''11.5'')] ''lon'' = Some ''11.5''
   \<and> map_of [(''lat'', ''48.25''), (''lon'', ''11.5'')] ''lat'' = Some ''48.25''
   \<and> no_time_child [TextEvent '' '', StartElement ''ele'' [], TextEvent ''48.25'',
                     EndElement ''ele'', TextEvent '' '']
   \<and> no_time_child [TextEvent '' '', StartElement ''name'' [], TextEvent ''pier'',
                     EndElement ''name'']
   \<and> no_time_child [TextEvent '' '']
   \<and> from_iso_sample ''1970-01-01T00:01:40Z'' \<lparr>tv_sec = 0, tv_usec = 0\<rparr>
       = (True, \<lparr>tv_sec = 100, tv_usec = 0\<rparr>)
   \<and> (\<exists>gpx' tp.
         run_events strtod_sample from_iso_sample
           (StartElement ''trkpt'' [(''lat'', ''48.25''), (''lon'', ''11.5'')]
              # [TextEvent '' '', StartElement ''ele'' [], TextEvent ''48.25'',
                 EndElement ''ele'', TextEvent '' '']
              @ [StartElement ''time'' [], TextEvent ''1970-01-01T00:01:40Z'',
                 EndElement ''time'']
              @ [TextEvent '' ''] @ [EndElement ''trkpt'']) gpx_zero = Inr gpx'
       \<and> track gpx' = track gpx_zero @ [Ptr tp]
       \<and> longitude tp = strtod_sample ''11.5'' \<and> latitude tp = strtod_sample ''48.25''
       \<and> time tp = \<lparr>tv_sec = 100, tv_usec = 0\<rparr>
       \<and> current_track_point gpx' = NULL)
   \<and> run_events strtod_sample from_iso_sample
         (StartElement ''trkpt'' [(''lat'', ''48.25''), (''lon'', ''11.5'')]
            # [TextEvent '' '', StartElement ''ele'' [], TextEvent ''48.25'',
               EndElement ''ele'', TextEvent '' '']
            @ [StartElement ''time'' [], TextEvent ''1970-01-01T00:01:40Z'',
               EndElement ''time'']
            @ [TextEvent '' ''] @ [EndElement ''trkpt'']) gpx_zero
       = Inr \<lparr>track = [Ptr \<lparr>longitude = Finite (23 / 2), latitude = Finite (193 / 4),
                            elevation = Finite (193 / 4),
                            time = \<lparr>tv_sec = 100, tv_usec = 0\<rparr>\<rparr>],
              current_track_point = NULL, current_parser_element = 0,
              invalid_track_point = False\<rparr>
   \<and> list_all (\<lambda>ev. \<not> starts ''ele'' ev)
        ([TextEvent '' '', StartElement ''name'' [], TextEvent ''pier'', EndElement ''name'']
           @ [TextEvent '' ''])
   \<and> (\<exists>gpx' tp.
         run_events strtod_sample from_iso_sample
           (StartElement ''trkpt'' [(''lat'', ''48.25''), (''lon'', ''11.5'')]
              # [TextEvent '' '', StartElement ''name'' [], TextEvent ''pier'',
                 EndElement ''name'']
              @ [StartElement ''time'' [], TextEvent ''1970-01-01T00:01:40Z'',
                 EndElement ''time'']
              @ [TextEvent '' ''] @ [EndElement ''trkpt'']) gpx_zero = Inr gpx'
       \<and> track gpx' = track gpx_zero @ [Ptr tp]
       \<and> longitude tp = strtod_sample ''11.5'' \<and> latitude tp = strtod_sample ''48.25''
       \<and> time tp = \<lparr>tv_sec = 100, tv_usec = 0\<rparr>
       \<and> elevation tp = Finite 0
       \<and> current_track_point gpx' = NULL)"
proof -
  have h1: "current_track_point gpx_zero \<noteq> Freed" by (simp add: gpx_zero_def)
  have h2: "distinct (map fst [(''lat'', ''48.25''), (''lon'', ''11.5'')])" by simp
  have h3: "map_of [(''lat'', ''48.25''), (''lon'', ''11.5'')] ''lon'' = Some ''11.5''"
    by simp
  have h4: "map_of [(''lat'', ''48.25''), (''lon'', ''11.5'')] ''lat'' = Some ''48.25''"
    by simp
  have h5: "no_time_child [TextEvent '' '', StartElement ''ele'' [], TextEvent ''48.25'',
                           EndElement ''ele'', TextEvent '' '']"
    by (simp add: no_time_child_def trkpt_free_def)
  have h5': "no_time_child [TextEvent '' '', StartElement ''name'' [], TextEvent ''pier'',
                            EndElement ''name'']"
    by (simp add: no_time_child_def trkpt_free_def)
  have h6: "no_time_child [TextEvent '' '']"
    by (simp add: no_time_child_def trkpt_free_def)
  have h7: "from_iso_sample ''1970-01-01T00:01:40Z'' \<lparr>tv_sec = 0, tv_usec = 0\<rparr>
              = (True, \<lparr>tv_sec = 100, tv_usec = 0\<rparr>)"
    by (simp add: from_iso_sample_def)
  have h8: "list_all (\<lambda>ev. \<not> starts ''ele'' ev)
        ([TextEvent '' '', StartElement ''name'' [], TextEvent ''pier'', EndElement ''name'']
           @ [TextEvent '' ''])"
    by simp
  have h9: "run_events strtod_sample from_iso_sample
         (StartElement ''trkpt'' [(''lat'', ''48.25''), (''lon'', ''11.5'')]
            # [TextEvent '' '', StartElement ''ele'' [], TextEvent ''48.25'',
               EndElement ''ele'', TextEvent '' '']
            @ [StartElement ''time'' [], TextEvent ''1970-01-01T00:01:40Z'',
               EndElement ''time'']
            @ [TextEvent '' ''] @ [EndElement ''trkpt'']) gpx_zero
       = Inr \<lparr>track = [Ptr \<lparr>longitude = Finite (23 / 2), latitude = Finite (193 / 4),
                            elevation = Finite (193 / 4),
                            time = \<lparr>tv_sec = 100, tv_usec = 0\<rparr>\<rparr>],
              current_track_point = NULL, current_parser_element = 0,
              invalid_track_point = False\<rparr>"
    by (simp add: callback_defs gpx_zero_def new_track_point_def gdouble_eq_def
        strtod_sample_def from_iso_sample_def)
  note with_ele = valid_trkpt_appended [where from_iso = from_iso_sample
      and time_text = "''1970-01-01T00:01:40Z''" and strtod = strtod_sample and tattrs = "[]",
      OF h1 h2 h3 h4 h5 h6 h7]
  note without_ele = valid_trkpt_appended [where from_iso = from_iso_sample
      and time_text = "''1970-01-01T00:01:40Z''" and strtod = strtod_sample and tattrs = "[]",
      OF h1 h2 h3 h4 h5' h6 h7]
  from h1 h2 h3 h4 h5 h5' h6 h7 h8 h9 with_ele without_ele show ?thesis by blast
qed




section \<open>Timestamps of stored points\<close>

text \<open>
  Line 184 frees the point in progress and only the branch of line 194 replaces the
  pointer: a \<^verbatim>\<open>trkpt\<close> start tag with no attribute leaves it dangling. Without such a
  tag no callback faults and the current pointer never dangles.
\<close>

lemma no_fault_event:
  assumes "ev \<noteq> StartElement ''trkpt'' []" and "current_track_point g \<noteq> Freed"
  shows "\<exists>g'. gpx_parser_event sd fi ev g = Inr g' \<and> current_track_point g' \<noteq> Freed"
proof (cases ev)
  case (StartElement n attrs)
  show ?thesis
  proof (cases "n = ''trkpt''")
    case True
    with assms(1) StartElement have "attrs \<noteq> []" by simp
    from start_trkpt_with_attributes [OF assms(2) this, of sd] True StartElement
    show ?thesis by auto
  next
    case False
    with StartElement assms(2) show ?thesis
      by (auto simp: gpx_parser_start_element_def)
  qed
next
  case (EndElement n)
  with assms(2) show ?thesis
    by (cases "current_track_point g") (auto simp: gpx_parser_end_element_def)
next
  case (TextEvent s)
  with assms(2) show ?thesis
    by (cases "current_track_point g")
      (auto simp: gpx_parser_text_def Let_def split: prod.splits)
qed

lemma run_events_no_fault:
  assumes "list_all (\<lambda>ev. ev \<noteq> StartElement ''trkpt'' []) evs"
      and "current_track_point g \<noteq> Freed"
  shows "\<exists>g'. run_events sd fi evs g = Inr g' \<and> current_track_point g' \<noteq> Freed"
  using assms
proof (induction evs arbitrary: g)
  case Nil
  then show ?case by simp
next
  case (Cons ev evs)
  from Cons.prems(1) have ev: "ev \<noteq> StartElement ''trkpt'' []"
    and evs: "list_all (\<lambda>ev. ev \<noteq> StartElement ''trkpt'' []) evs"
    by simp_all
  from no_fault_event [OF ev Cons.prems(2), of sd fi] obtain g1 where
    g1: "gpx_parser_event sd fi ev g = Inr g1" "current_track_point g1 \<noteq> Freed"
    by blast
  from Cons.IH [OF evs g1(2)] g1(1) show ?case by simp
qed

lemma timestamps_sound_event:
  assumes "timestamps_sound fi g" and "current_track_point g \<noteq> Freed"
      and "ev \<noteq> StartElement ''trkpt'' []"
      and "gpx_parser_event sd fi ev g = Inr g'"
  shows "timestamps_sound fi g'"
proof (cases ev)
  case (StartElement n attrs)
  have fresh: "time (scan_attributes sd attrs new_track_point) = \<lparr>tv_sec = 0, tv_usec = 0\<rparr>"
    using scan_attributes_frame [of sd attrs new_track_point] by (simp add: new_track_point_def)
  from assms StartElement fresh show ?thesis
    by (cases "current_track_point g")
      (auto simp: timestamps_sound_def timestamp_parsed_or_default_def
         gpx_parser_start_element_def Let_def split: if_splits)
next
  case (EndElement n)
  with assms show ?thesis
    by (cases "current_track_point g")
      (auto simp: timestamps_sound_def timestamp_parsed_or_default_def
         gpx_parser_end_element_def split: if_splits)
next
  case (TextEvent s)
  with assms show ?thesis
    by (cases "current_track_point g")
      (auto simp: timestamps_sound_def timestamp_parsed_or_default_def
         gpx_parser_text_def Let_def split: if_splits prod.splits)
qed

lemma timestamps_sound_run:
  assumes "list_all (\<lambda>ev. ev \<noteq> StartElement ''trkpt'' []) evs"
      and "timestamps_sound fi g" and "current_track_point g \<noteq> Freed"
  shows "\<exists>g'. run_events sd fi evs g = Inr g' \<and> timestamps_sound fi g'"
  using assms
proof (induction evs arbitrary: g)
  case Nil
  then show ?case by simp
next
  case (Cons ev evs)
  from Cons.prems(1) have ev: "ev \<noteq> StartElement ''trkpt'' []"
    and evs: "list_all (\<lambda>ev. ev \<noteq> StartElement ''trkpt'' []) evs"
    by simp_all
  from no_fault_event [OF ev Cons.prems(3), of sd fi] obtain g1 where
    g1: "gpx_parser_event sd fi ev g = Inr g1" "current_track_point g1 \<noteq> Freed"
    by blast
  from timestamps_sound_event [OF Cons.prems(2,3) ev g1(1)]
  have "timestamps_sound fi g1" .
  from Cons.IH [OF evs this g1(2)] g1(1) show ?case by simp
qed

lemma timestamps_sound_zero:
  "timestamps_sound fi gpx_zero \<and> current_track_point gpx_zero \<noteq> Freed"
  by (simp add: timestamps_sound_def timestamp_parsed_or_default_def gpx_zero_def)

lemma timeless_trkpt_appended:
  assumes cur: "current_track_point g \<noteq> Freed"
      and attrs: "distinct (map fst attrs)" "map_of attrs ''lon'' = Some vlon"
                 "map_of attrs ''lat'' = Some vlat"
      and body: "no_time_child body"
  shows "\<exists>g' tp. run_events sd fi (StartElement ''trkpt'' attrs # body @ [EndElement ''trkpt'']) g
                    = Inr g'
           \<and> track g' = track g @ [Ptr tp]
           \<and> time tp = \<lparr>tv_sec = 0, tv_usec = 0\<rparr>
           \<and> longitude tp = sd vlon \<and> latitude tp = sd vlat"
proof -
  let ?p0 = "scan_attributes sd attrs new_track_point"
  from attrs(2) have ne: "attrs \<noteq> []" by auto
  have fresh: "time ?p0 = \<lparr>tv_sec = 0, tv_usec = 0\<rparr>"
    using scan_attributes_frame [of sd attrs new_track_point] by (simp add: new_track_point_def)
  have coords: "longitude ?p0 = sd vlon" "latitude ?p0 = sd vlat"
    using scan_attributes_lon [OF attrs(1), of sd new_track_point]
      scan_attributes_lat [OF attrs(1), of sd new_track_point] attrs(2,3)
    by simp_all
  from start_trkpt_with_attributes [OF cur ne] obtain g1 where
    g1: "gpx_parser_start_element sd ''trkpt'' attrs g = Inr g1" "track g1 = track g"
      "current_track_point g1 = Ptr ?p0" "\<not> invalid_track_point g1"
      "current_parser_element g1 = GPX_PARSER_ELEMENT_TRKPT"
    by blast
  from g1(5) have e1: "current_parser_element g1 \<noteq> GPX_PARSER_ELEMENT_TIME"
    by (simp add: callback_defs)
  from timeless_events [OF body g1(3) e1, where sd = sd and fi = fi] obtain g2 p2 where
    g2: "run_events sd fi body g1 = Inr g2" "track g2 = track g1"
      "invalid_track_point g2 = invalid_track_point g1" "current_track_point g2 = Ptr p2"
      "longitude p2 = longitude ?p0" "latitude p2 = latitude ?p0" "time p2 = time ?p0"
    by blast
  let ?g3 = "g2\<lparr>track := track g2 @ [current_track_point g2],
                current_track_point := NULL, current_parser_element := 0\<rparr>"
  have g3: "gpx_parser_end_element ''trkpt'' g2 = Inr ?g3"
    using g2(3) g1(4) by (simp add: gpx_parser_end_element_def)
  have whole: "run_events sd fi (StartElement ''trkpt'' attrs # body @ [EndElement ''trkpt'']) g
                 = Inr ?g3"
    using g1(1) g2(1) g3 by (simp add: run_events_append)
  have "track ?g3 = track g @ [Ptr p2]"
    using g2(2,4) g1(2) by simp
  moreover have "time p2 = \<lparr>tv_sec = 0, tv_usec = 0\<rparr>" "longitude p2 = sd vlon"
      "latitude p2 = sd vlat"
    using g2(5,6,7) fresh coords by simp_all
  ultimately show ?thesis using whole by blast
qed

text \<open>
  Claim C2, as the code has it. No check asks for a \<^verbatim>\<open>time\<close> child. In a document
  with no attribute-less \<^verbatim>\<open>trkpt\<close> start tag the parse runs through and every point of
  the finished store carries either a timestamp that \<^verbatim>\<open>g_time_val_from_iso8601\<close>
  produced on success or the zero timestamp of a fresh point (and no entry dangles). A
  \<^verbatim>\<open>trkpt\<close> with valid \<^verbatim>\<open>lon\<close> and \<^verbatim>\<open>lat\<close> attributes (both present, both read as
  numbers), no \<^verbatim>\<open>time\<close> child and no nested \<^verbatim>\<open>trkpt\<close> is appended to the store, with
  timestamp 0 s, 0 us and the coordinates of its attributes, in any context whose current
  pointer is not dangling.
\<close>

theorem store_timestamps_parsed_or_default:
  assumes doc: "list_all (\<lambda>ev. ev \<noteq> StartElement ''trkpt'' []) evs"
      and cur: "current_track_point g \<noteq> Freed"
      and attrs: "distinct (map fst attrs)" "map_of attrs ''lon'' = Some vlon"
                 "map_of attrs ''lat'' = Some vlat"
      and valid: "strtod vlon \<noteq> NaN" "strtod vlat \<noteq> NaN"
      and body: "no_time_child body"
  shows "(\<exists>gpx. run_events strtod from_iso evs gpx_zero = Inr gpx
            \<and> list_all (timestamp_parsed_or_default from_iso) (track gpx))
       \<and> (\<exists>g' tp.
             run_events strtod from_iso
               (StartElement ''trkpt'' attrs # body @ [EndElement ''trkpt'']) g = Inr g'
           \<and> track g' = track g @ [Ptr tp]
           \<and> time tp = \<lparr>tv_sec = 0, tv_usec = 0\<rparr>
           \<and> longitude tp = strtod vlon \<and> latitude tp = strtod vlat)"
proof
  from timestamps_sound_zero [of from_iso]
  have z: "timestamps_sound from_iso gpx_zero" "current_track_point gpx_zero \<noteq> Freed"
    by simp_all
  from timestamps_sound_run [OF doc z, of strtod]
  show "\<exists>gpx. run_events strtod from_iso evs gpx_zero = Inr gpx
            \<and> list_all (timestamp_parsed_or_default from_iso) (track gpx)"
    by (auto simp: timestamps_sound_def)
next
  from timeless_trkpt_appended [OF cur attrs body]
  show "\<exists>g' tp.
             run_events strtod from_iso
               (StartElement ''trkpt'' attrs # body @ [EndElement ''trkpt'']) g = Inr g'
           \<and> track g' = track g @ [Ptr tp]
           \<and> time tp = \<lparr>tv_sec = 0, tv_usec = 0\<rparr>
           \<and> longitude tp = strtod vlon \<and> latitude tp = strtod vlat" .
qed

theorem store_timestamps_parsed_or_default_witness:
  "list_all (\<lambda>ev. ev \<noteq> StartElement ''trkpt'' [])
     [StartElement ''trkpt'' [(''lon'', ''11.5''), (''lat'', ''48.25'')],
      StartElement ''time'' [], TextEvent ''1970-01-01T00:01:40Z'', EndElement ''time'',
      EndElement ''trkpt'',
      StartElement ''trkpt'' [(''lon'', ''48.25''), (''lat'', ''11.5'')],
      EndElement ''trkpt'']
   \<and> current_track_point gpx_zero \<noteq> Freed
   \<and> distinct (map fst [(''lon'', ''11.5''), (''lat'', ''48.25'')])
   \<and> map_of [(''lon'', ''11.5''), (''lat'', ''48.25'')] ''lon'' = Some ''11.5''
   \<and> map_of [(''lon'', ''11.5''), (''lat'', ''48.25'')] ''lat'' = Some ''48.25''
   \<and> strtod_sample ''11.5'' \<noteq> NaN \<and> strtod_sample ''48.25'' \<noteq> NaN
   \<and> no_time_child [StartElement ''ele'' [], TextEvent ''11.5'', EndElement ''ele'']
   \<and> (\<exists>gpx.
         run_events strtod_sample from_iso_sample
           [StartElement ''trkpt'' [(''lon'', ''11.5''), (''lat'', ''48.25'')],
            StartElement ''time'' [], TextEvent ''1970-01-01T00:01:40Z'', EndElement ''time'',
            EndElement ''trkpt'',
            StartElement ''trkpt'' [(''lon'', ''48.25''), (''lat'', ''11.5'')],
            EndElement ''trkpt''] gpx_zero = Inr gpx
       \<and> list_all (timestamp_parsed_or_default from_iso_sample) (track gpx))
   \<and> (\<exists>g' tp.
         run_events strtod_sample from_iso_sample
           (StartElement ''trkpt'' [(''lon'', ''11.5''), (''lat'', ''48.25'')]
              # [StartElement ''ele'' [], TextEvent ''11.5'', EndElement ''ele'']
              @ [EndElement ''trkpt'']) gpx_zero = Inr g'
       \<and> track g' = track gpx_zero @ [Ptr tp]
       \<and> time tp = \<lparr>tv_sec = 0, tv_usec = 0\<rparr>
       \<and> longitude tp = strtod_sample ''11.5'' \<and> latitude tp = strtod_sample ''48.25'')"
proof -
  have h1: "list_all (\<lambda>ev. ev \<noteq> StartElement ''trkpt'' [])
     [StartElement ''trkpt'' [(''lon'', ''11.5''), (''lat'', ''48.25'')],
      StartElement ''time'' [], TextEvent ''1970-01-01T00:01:40Z'', EndElement ''time'',
      EndElement ''trkpt'',
      StartElement ''trkpt'' [(''lon'', ''48.25''), (''lat'', ''11.5'')],
      EndElement ''trkpt'']"
    by simp
  have h2: "current_track_point gpx_zero \<noteq> Freed" by (simp add: gpx_zero_def)
  have h3: "distinct (map fst [(''lon'', ''11.5''), (''lat'', ''48.25'')])" by simp
  have h4: "map_of [(''lon'', ''11.5''), (''lat'', ''48.25'')] ''lon'' = Some ''11.5''"
    by simp
  have h5: "map_of [(''lon'', ''11.5''), (''lat'', ''48.25'')] ''lat'' = Some ''48.25''"
    by simp
  have h6: "strtod_sample ''11.5'' \<noteq> NaN" "strtod_sample ''48.25'' \<noteq> NaN"
    by (simp_all add: strtod_sample_def)
  have h7: "no_time_child [StartElement ''ele'' [], TextEvent ''11.5'', EndElement ''ele'']"
    by (simp add: no_time_child_def trkpt_free_def)
  note inst = store_timestamps_parsed_or_default [where from_iso = from_iso_sample
      and strtod = strtod_sample, OF h1 h2 h3 h4 h5 h6 h7]
  from h1 h2 h3 h4 h5 h6 h7 inst show ?thesis by blast
qed

text \<open>
  Claim C2 as stated fails: a \<^verbatim>\<open>trkpt\<close> element with the attributes
  \<^verbatim>\<open>lon\<close> 11.5 and \<^verbatim>\<open>lat\<close> 48.25 and no child has no \<^verbatim>\<open>time\<close>, and its point
  is in the store, with the zero timestamp.
\<close>

theorem timeless_trkpt_counterexample:
  "run_events strtod_sample from_iso_sample
     [StartElement ''trkpt'' [(''lon'', ''11.5''), (''lat'', ''48.25'')], EndElement ''trkpt'']
     gpx_zero
   = Inr \<lparr>track = [Ptr \<lparr>longitude = Finite (23 / 2), latitude = Finite (193 / 4),
                        elevation = Finite 0, time = \<lparr>tv_sec = 0, tv_usec = 0\<rparr>\<rparr>],
          current_track_point = NULL, current_parser_element = 0,
          invalid_track_point = False\<rparr>"
  by (simp add: callback_defs gpx_zero_def new_track_point_def gdouble_eq_def strtod_sample_def)

section \<open>Malformed \<^verbatim>\<open>trkpt\<close> elements\<close>

text \<open>
  Claim C1 says that a \<^verbatim>\<open>trkpt\<close> with an attribute but without \<^verbatim>\<open>lon\<close> (or
  \<^verbatim>\<open>lat\<close>) is marked invalid and stays out of the store. The check of lines 214-215
  compares with \<^verbatim>\<open>== NAN\<close>, which is false for every operand, so the flag stays
  \<^verbatim>\<open>FALSE\<close>: on a \<^verbatim>\<open>trkpt\<close> element whose only
  attribute is \<^verbatim>\<open>lat\<close> the point is stored, with a not-a-number
  longitude, and the store grows by one.
\<close>

theorem missing_lon_point_is_stored:
  "gpx_parser_start_element strtod ''trkpt'' [(''lat'', v)] gpx_zero
     = Inr \<lparr>track = [],
            current_track_point =
              Ptr \<lparr>longitude = NaN, latitude = strtod v, elevation = Finite 0,
                   time = \<lparr>tv_sec = 0, tv_usec = 0\<rparr>\<rparr>,
            current_parser_element = GPX_PARSER_ELEMENT_TRKPT,
            invalid_track_point = False\<rparr>
   \<and> run_events strtod from_iso
       [StartElement ''trkpt'' [(''lat'', v)], EndElement ''trkpt''] gpx_zero
     = Inr \<lparr>track = [Ptr \<lparr>longitude = NaN, latitude = strtod v, elevation = Finite 0,
                          time = \<lparr>tv_sec = 0, tv_usec = 0\<rparr>\<rparr>],
            current_track_point = NULL, current_parser_element = 0,
            invalid_track_point = False\<rparr>"
  by (simp add: callback_defs gpx_zero_def new_track_point_def gdouble_eq_def)

text \<open>
  Claim C3 says that a \<^verbatim>\<open>trkpt\<close> with no attribute leaves the store as it was. The
  branch of line 223 starts no point but leaves \<^verbatim>\<open>invalid_track_point\<close> at the
  \<^verbatim>\<open>FALSE\<close> of line 190, so the end tag appends the current pointer, which is
  \<^verbatim>\<open>NULL\<close>: the store grows by one \<^verbatim>\<open>NULL\<close> entry.
\<close>

theorem empty_trkpt_appends_null:
  "run_events strtod from_iso [StartElement ''trkpt'' [], EndElement ''trkpt'']
     \<lparr>track = store, current_track_point = NULL, current_parser_element = e,
      invalid_track_point = b\<rparr>
     = Inr \<lparr>track = store @ [NULL], current_track_point = NULL, current_parser_element = 0,
            invalid_track_point = False\<rparr>
   \<and> length (store @ [NULL]) = length store + 1"
  by (simp add: callback_defs)

text \<open>A later lookup dereferences every entry it visits; on such an entry it reads
  through \<^verbatim>\<open>NULL\<close>.\<close>

lemma null_entry_lookup_faults:
  "dt_gpx_get_location (gpx\<lparr>track := NULL # entry # entries\<rparr>) timestamp lon lat
     = Inl NullDeref"
  by (simp add: dt_gpx_get_location_def dt_gpx_get_location_exit_def)

section \<open>\<^verbatim>\<open>dt_gpx_new\<close> and nested \<^verbatim>\<open>trkpt\<close> elements\<close>

text \<open>
  No callback sets the error of the parse, so malformed input alone never makes
  \<^verbatim>\<open>dt_gpx_new\<close> return \<^verbatim>\<open>NULL\<close>. A callback can still free a point twice or write
  through a dangling pointer: line 184 frees the point in progress and only the branch of
  line 194 replaces the pointer. That needs a \<^verbatim>\<open>trkpt\<close> start tag with no attribute
  while a point is in progress; without such a tag no callback faults, and a buffer of 10
  bytes or more (and fewer than 2^31) that the tokenizer accepts gives a handle.
\<close>

lemma gint_of_length:
  assumes "n < 2 ^ 31"
  shows "sint (word_of_nat n :: 32 word) = int n"
proof -
  from assms have "int n < 2 ^ 31" by (metis of_nat_less_iff of_nat_numeral of_nat_power)
  then show ?thesis
    by (simp add: signed_of_nat signed_take_bit_int_eq_self)
qed

lemma dt_gpx_new_returns_handle:
  assumes "mapped_file filename = Some content"
      and "10 \<le> length content" and "length content < 2 ^ 31"
      and "markup_parse content = (events, False)"
      and "list_all (\<lambda>ev. ev \<noteq> StartElement ''trkpt'' []) events"
  shows "\<exists>gpx. dt_gpx_new mapped_file markup_parse sd fi filename = Inr (Some gpx)"
proof -
  from run_events_no_fault [OF assms(5), of gpx_zero sd fi] obtain g where
    g: "run_events sd fi events gpx_zero = Inr g"
    by (auto simp: gpx_zero_def)
  from assms(2) have ne: "content \<noteq> []" by auto
  from assms(1,2,4) ne g show ?thesis
    by (simp add: dt_gpx_new_def gint_of_length [OF assms(3)])
qed

text \<open>
  Claim C7 says that such nesting violations never make the parse fail. On a well-formed
  document with a \<^verbatim>\<open>trkpt\<close> that has attributes and two attribute-less \<^verbatim>\<open>trkpt\<close>
  elements nested inside, the second start tag frees the point in progress and leaves
  the pointer dangling, and the third start tag frees it again: \<^verbatim>\<open>dt_gpx_new\<close> does
  not return a handle, it runs into a double free.
\<close>

theorem nested_empty_trkpt_double_free:
  "dt_gpx_new
     (\<lambda>filename. Some ''<gpx><trkpt lon=\"11.5\" lat=\"48.25\"><trkpt><trkpt></trkpt></trkpt></trkpt></gpx>'')
     (\<lambda>buffer. ([StartElement ''gpx'' [],
                   StartElement ''trkpt'' [(''lon'', ''11.5''), (''lat'', ''48.25'')],
                   StartElement ''trkpt'' [], StartElement ''trkpt'' [],
                   EndElement ''trkpt'', EndElement ''trkpt'', EndElement ''trkpt'',
                   EndElement ''gpx''], False))
     strtod from_iso filename
   = Inl DoubleFree"
  by (simp add: dt_gpx_new_def callback_defs gpx_zero_def gdouble_eq_def)

end
